theory Spec2Isabelle
  imports Main
begin

section \<open>Segment addressing (app-render.tsx, lines 76--229)\<close>

text \<open>
  A JavaScript string is represented by the bytes of its UTF-8 form (\<open>string\<close>), so only
  well-formed strings are values of the model; on a string with a lone surrogate
  \<open>encodeURIComponent\<close> raises URIError, and no such string is a value here.
\<close>

text \<open>
  \<open>Segment\<close> (types.ts): \<open>string | [param, value, type]\<close>. \<open>Array.isArray\<close> is true exactly
  of the triple.
\<close>

datatype Segment = Lit string | Dyn string string string


text \<open>
  \<open>FlightRouterState\<close>: \<open>[segment, parallelRoutes, url?, refresh?, isRootLayout?]\<close>. Only
  elements 0 and 1 are read by this file. The parallel routes are the entries of the object in
  the order in which \<open>Object.values\<close> enumerates them.
\<close>

datatype FlightRouterState = FlightRouterState Segment "(string \<times> FlightRouterState) list"

text \<open>A route parameter value: \<open>string | string[]\<close>.\<close>

datatype ParamValue = VStr string | VArr "string list"

text \<open>The object returned by \<open>GetDynamicParamFromSegment\<close>; \<open>null\<close> is \<open>None\<close>.\<close>

record DynamicParam =
  param :: string
  "value" :: "ParamValue option"
  treeSegment :: Segment
  type :: string

text \<open>The result of \<open>getSegmentParam\<close>: \<open>{ param, type }\<close>.\<close>

record SegmentParam =
  sp_param :: string
  sp_type :: string

text \<open>
  The helpers that segment addressing imports from files outside \<open>app-render.tsx\<close>:
  \<open>getSegmentParam\<close>, \<open>canSegmentBeOverridden\<close>, the table \<open>dynamicParamTypes\<close> and
  \<open>getShortDynamicParamType\<close>. They are parameters of the model.
\<close>

record Addressing =
  getSegmentParam :: "string \<Rightarrow> SegmentParam option"
  canSegmentBeOverridden :: "string \<Rightarrow> Segment \<Rightarrow> bool"
  dynamicParamTypes :: "string \<Rightarrow> string"
  getShortDynamicParamType :: "string \<Rightarrow> string"

subsection \<open>\<open>encodeURIComponent\<close>\<close>

text \<open>
  ECMAScript \<open>encodeURIComponent\<close> on the UTF-8 bytes: the unreserved characters
  \<open>A-Z a-z 0-9 - _ . ! ~ * ' ( )\<close> stay, every other byte becomes \<open>%XX\<close> in upper-case hex.
\<close>

definition uriUnreserved :: "char \<Rightarrow> bool" where
  "uriUnreserved ch =
     (let n = (of_char ch :: nat)
      in (65 \<le> n \<and> n \<le> 90) \<or> (97 \<le> n \<and> n \<le> 122) \<or> (48 \<le> n \<and> n \<le> 57)
         \<or> n = 45 \<or> n = 95 \<or> n = 46 \<or> n = 33 \<or> n = 126 \<or> n = 42 \<or> n = 39 \<or> n = 40 \<or> n = 41)"

definition hexDigit :: "nat \<Rightarrow> char" where
  "hexDigit n = (if n < 10 then char_of (48 + n) else char_of (55 + n))"

definition percentEncodeByte :: "char \<Rightarrow> string" where
  "percentEncodeByte ch =
     (let n = (of_char ch :: nat) in [CHR ''%'', hexDigit (n div 16), hexDigit (n mod 16)])"

definition encodeURIComponent :: "string \<Rightarrow> string" where
  "encodeURIComponent s =
     concat (map (\<lambda>ch. if uriUnreserved ch then [ch] else percentEncodeByte ch) s)"

text \<open>
  Percent-decoding, as the client does it when the router state is replayed: every \<open>%XX\<close>
  becomes the byte \<open>XX\<close>, every other character stays; a \<open>%\<close> not followed by two hex digits
  is an error (\<open>None\<close>).
\<close>

definition hexVal :: "char \<Rightarrow> nat option" where
  "hexVal ch =
     (let n = (of_char ch :: nat)
      in if 48 \<le> n \<and> n \<le> 57 then Some (n - 48)
         else if 65 \<le> n \<and> n \<le> 70 then Some (n - 55)
         else if 97 \<le> n \<and> n \<le> 102 then Some (n - 87)
         else None)"

fun percentDecode :: "string \<Rightarrow> string option" where
  "percentDecode [] = Some []"
| "percentDecode (ch # cs) =
     (if ch = CHR ''%'' then
        (case cs of
           h # l # rest \<Rightarrow>
             (case (hexVal h, hexVal l) of
                (Some a, Some b) \<Rightarrow> map_option ((#) (char_of (16 * a + b))) (percentDecode rest)
              | _ \<Rightarrow> None)
         | _ \<Rightarrow> None)
      else map_option ((#) ch) (percentDecode cs))"

subsection \<open>\<open>findDynamicParamFromRouterState\<close>\<close>

text \<open>
  \<open>segment\<close> is typed \<open>string\<close>, so \<open>Array.isArray(segment)\<close> is false and the inner test
  \<open>!Array.isArray(treeSegment) || Array.isArray(segment)\<close> is \<open>!Array.isArray(treeSegment)\<close>.
  The \<open>for\<close> loop over \<open>Object.values(providedFlightRouterState[1])\<close> is
  \<open>findInParallelRoutes\<close>; every child is a router state, so the \<open>undefined\<close> test applies to
  the outermost call only (\<open>findDynamicParamFromRouterState\<close> below).
\<close>

fun findInRouterState :: "Addressing \<Rightarrow> FlightRouterState \<Rightarrow> string \<Rightarrow> DynamicParam option"
  and findInParallelRoutes ::
    "Addressing \<Rightarrow> (string \<times> FlightRouterState) list \<Rightarrow> string \<Rightarrow> DynamicParam option"
where
  "findInRouterState A (FlightRouterState treeSeg parallelRoutes) segment =
     (if canSegmentBeOverridden A segment treeSeg then
        (case treeSeg of
           Lit _ \<Rightarrow> None
         | Dyn p v t \<Rightarrow>
             Some \<lparr> param = p, value = Some (VStr v), treeSegment = treeSeg, type = t \<rparr>)
      else findInParallelRoutes A parallelRoutes segment)"
| "findInParallelRoutes A [] segment = None"
| "findInParallelRoutes A ((slot, parallelRouterState) # rest) segment =
     (case findInRouterState A parallelRouterState segment of
        Some maybeDynamicParam \<Rightarrow> Some maybeDynamicParam
      | None \<Rightarrow> findInParallelRoutes A rest segment)"

definition findDynamicParamFromRouterState ::
  "Addressing \<Rightarrow> FlightRouterState option \<Rightarrow> string \<Rightarrow> DynamicParam option" where
  "findDynamicParamFromRouterState A providedFlightRouterState segment =
     (case providedFlightRouterState of
        None \<Rightarrow> None
      | Some st \<Rightarrow> findInRouterState A st segment)"

subsection \<open>\<open>makeGetDynamicParamFromSegment\<close>\<close>

text \<open>\<open>Array.prototype.join\<close> with a separator.\<close>

fun join :: "string \<Rightarrow> string list \<Rightarrow> string" where
  "join sep [] = []"
| "join sep [x] = x"
| "join sep (x # y # ys) = x @ sep @ join sep (y # ys)"

text \<open>
  \<open>!value\<close>: \<open>undefined\<close> and the empty string are falsy, an array (also the empty one) is not.
\<close>

fun falsy :: "ParamValue option \<Rightarrow> bool" where
  "falsy None = True"
| "falsy (Some (VStr s)) = (s = [])"
| "falsy (Some (VArr _)) = False"

definition makeGetDynamicParamFromSegment ::
  "Addressing \<Rightarrow> (string \<Rightarrow> ParamValue option) \<Rightarrow> FlightRouterState option \<Rightarrow>
   string \<Rightarrow> DynamicParam option" where
  "makeGetDynamicParamFromSegment A params providedFlightRouterState segment =
     (case getSegmentParam A segment of
        None \<Rightarrow> None
      | Some segmentParam \<Rightarrow>
          let key = sp_param segmentParam;
              value0 = params key;
              value1 = (if value0 = Some (VStr ''__NEXT_EMPTY_PARAM__'') then None else value0);
              value2 = (case value1 of
                          Some (VArr xs) \<Rightarrow> Some (VArr (map encodeURIComponent xs))
                        | Some (VStr s) \<Rightarrow> Some (VStr (encodeURIComponent s))
                        | None \<Rightarrow> None)
          in if falsy value2 then
               (if sp_type segmentParam = ''optional-catchall'' then
                  (let ty = dynamicParamTypes A (sp_type segmentParam)
                   in Some \<lparr> param = key, value = None,
                             treeSegment = Dyn key [] ty, type = ty \<rparr>)
                else findDynamicParamFromRouterState A providedFlightRouterState segment)
             else
               (let ty = getShortDynamicParamType A (sp_type segmentParam)
                in Some \<lparr> param = key, value = value2,
                          treeSegment =
                            Dyn key (case value2 of
                                       Some (VArr xs) \<Rightarrow> join ''/'' xs
                                     | Some (VStr s) \<Rightarrow> s
                                     | None \<Rightarrow> []) ty,
                          type = ty \<rparr>))"



section \<open>The render orchestrator (app-render.tsx, lines 232--300 and 387--1034)\<close>

subsection \<open>Data\<close>

text \<open>
  \<open>LoaderTree\<close>: \<open>[segment, parallelRoutes, components]\<close>; the components are an opaque
  reference. \<open>createNotFoundLoaderTree\<close> keeps them and drops the rest.
\<close>

datatype LoaderTree = LoaderTree string "(string \<times> LoaderTree) list" nat

fun createNotFoundLoaderTree :: "LoaderTree \<Rightarrow> LoaderTree" where
  "createNotFoundLoaderTree (LoaderTree seg routes components) = LoaderTree [] [] components"

text \<open>
  A thrown value (\<open>err: any\<close>), by the properties the \<open>catch\<close> block reads: \<open>err.code\<close>,
  \<open>err.message\<close>, whether \<open>err.$$typeof\<close> is \<open>Symbol.for('react.postpone')\<close>, \<open>err.digest\<close> and
  \<open>err.mutableCookies\<close> (the cookies, as their serialised values).
\<close>

record Thrown =
  err_code :: "string option"
  err_message :: "string option"
  err_postpone :: bool
  err_digest :: "string option"
  err_mutableCookies :: "string list option"

text \<open>The \<open>ServerResponse\<close>: its status code, and the headers set with \<open>setHeader\<close>.\<close>

datatype HeaderValue = HStr string | HArr "string list"

record ServerResponse =
  statusCode :: int
  resHeaders :: "string \<Rightarrow> HeaderValue option"

text \<open>\<open>StaticGenerationStore['revalidate']\<close>: \<open>false\<close> or a number of seconds.\<close>

datatype Revalidate = RFalse | RSeconds nat

record StaticGenerationStore =
  isStaticGeneration :: bool
  revalidate :: "Revalidate option"
  forceStatic :: "bool option"
  tags :: "string list option"
  dynamicUsageDescription :: "string option"
  dynamicUsageStack :: "string option"

text \<open>The fields of \<open>renderOpts\<close> that decide the control flow.\<close>

record RenderOpts =
  dev :: bool
  supportsDynamicHTML :: "bool option"
  buildId :: string
  basePath :: "string option"
  ro_params :: "(string \<Rightarrow> ParamValue option) option"
  postponed :: "string option"

text \<open>
  A query object (\<open>NextParsedUrlQuery\<close>) is a list of entries. Objects live in a store and
  are named by their address, so that the caller's object and the copy are told apart.
\<close>

type_synonym Query = "(string \<times> ParamValue) list"

record Request =
  headers :: "string \<Rightarrow> string option"
  pagePath :: string
  query :: nat
  renderOpts :: RenderOpts
  loaderTree :: LoaderTree

text \<open>
  The payload handed to \<open>renderToReadableStream\<close>: \<open>[buildId, flightData]\<close>, behind the action
  result when there are options. A Flight stream and its unchunked string are represented by
  the payload they serialise. In the metadata, \<open>null\<close> and a field that is not there are both
  \<open>None\<close>.
\<close>

type_synonym FlightData = "string list list"

datatype FlightPayload = FlightPayload "string option" string "FlightData option"

record RenderResultMetadata =
  md_postponed :: "string option"
  md_pageData :: "FlightPayload option"
  md_fetchTags :: "string option"
  md_revalidate :: "Revalidate option"
  md_staticBailoutInfo :: "(string option \<times> string option) option"

definition emptyMetadata :: RenderResultMetadata where
  "emptyMetadata = \<lparr> md_postponed = None, md_pageData = None, md_fetchTags = None,
                      md_revalidate = None, md_staticBailoutInfo = None \<rparr>"

text \<open>
  What is rendered to HTML: the server-components renderer of a tree (with \<open>asNotFound\<close> and
  its inlined-data transform stream), or the error page (with its \<open>errorType\<close>, whether the
  robots \<open>noindex\<close> and the development \<open>next-error\<close> meta tags are in its head, and its
  transform stream). An HTML stream is represented by the element it renders and the form
  state; a body by the stream and how it is continued.
\<close>

datatype ErrorType = not_found | redirect

datatype Element =
    ServerComponentsRenderer LoaderTree bool nat
  | ErrorPage LoaderTree "ErrorType option" bool bool nat

datatype FizzStream = FizzStream Element "string option"

record ContinueStreamOptions =
  inlinedDataStream :: nat
  generateStaticHTML :: bool
  insertsCapturedErrors :: bool
  serverInsertedHTMLToHead :: bool
  validateRootLayout :: bool

datatype Body =
    Stream FizzStream
  | ContinuePostponedFizzStream FizzStream ContinueStreamOptions
  | ContinueFizzStream FizzStream ContinueStreamOptions

datatype Response = Streamed Body | Unchunked Body

text \<open>
  The results: a \<open>FlightRenderResult\<close>, a \<open>RenderResult\<close> with its metadata, or the result
  of the action handler (an opaque reference) extended with the orchestrator's metadata.
\<close>

datatype RenderResult =
    FlightRenderResult FlightPayload
  | RenderResult Response RenderResultMetadata
  | ActionRenderResult nat RenderResultMetadata

text \<open>The calls of the external renderers and helpers, in the order in which they are made.\<close>

datatype Event =
    WalkTreeWithFlightRouterState "FlightRouterState option" bool
  | RenderToReadableStream FlightPayload
  | NewTransformStream nat
  | HandleAction
  | Render Element
  | ContinueStream nat
  | CloneTransformStream nat nat
  | RenderToInitialFizzStream Element
  | Warn string
  | BailOnNotFound

text \<open>What \<open>handleAction\<close> returns: \<open>undefined\<close>, not-found, or done with a result or a form state.\<close>

datatype ActionRequestResult =
    NoAction
  | ActionNotFound
  | ActionDone "nat option" "string option"

text \<open>
  The helpers and constants imported from outside \<open>app-render.tsx\<close>; they are parameters of
  the model. \<open>appendMutableCookies\<close> yields its boolean and the values of the headers it filled;
  \<open>parseAndValidateFlightRouterState\<close> yields the router state, or \<open>undefined\<close> for a header
  that is absent or discarded.
\<close>

record Helpers =
  addressing :: Addressing
  RSC :: string
  NEXT_ROUTER_PREFETCH :: string
  NEXT_ROUTER_STATE_TREE :: string
  NEXT_DYNAMIC_NO_SSR_CODE :: string
  INTERNAL_QUERY_NAMES :: "string list"
  parseAndValidateFlightRouterState :: "string option \<Rightarrow> FlightRouterState option"
  isNotFoundError :: "Thrown \<Rightarrow> bool"
  isRedirectError :: "Thrown \<Rightarrow> bool"
  getRedirectStatusCodeFromError :: "Thrown \<Rightarrow> int"
  getURLFromRedirectError :: "Thrown \<Rightarrow> string"
  appendMutableCookies :: "string list \<Rightarrow> bool \<times> string list"
  addImplicitTags :: "string list option \<Rightarrow> string list option"
  nodeEnvDevelopment :: bool

text \<open>
  What the external renderers do in one request: the outcome of each call (\<open>Inl\<close> is the value
  it throws) and the errors it reports to the error handlers, which push them onto
  \<open>capturedErrors\<close>. The orchestrator makes each of these calls at most once in a request.
\<close>

record Scenario =
  walkTreeWithFlightRouterState :: "Thrown + FlightData"
  flightToUnchunkedString :: "Thrown option"
  flightReported :: "Thrown list"
  handleAction :: ActionRequestResult
  render :: "Thrown + string option"
  renderReported :: "Thrown list"
  renderToInitialFizzStream :: "Thrown option"
  continueFizzStream :: "Thrown option"
  errorReported :: "Thrown list"
  bailOnNotFound :: "Thrown option"

text \<open>The mutable state of one request.\<close>

record State =
  res :: ServerResponse
  store :: StaticGenerationStore
  objects :: "Query list"
  streams :: nat
  capturedErrors :: "Thrown list"
  extraRenderResultMeta :: RenderResultMetadata
  trace :: "Event list"

text \<open>\<open>AppRenderContext\<close>, by the fields that this file passes on.\<close>

record Ctx =
  ctx_getDynamicParamFromSegment :: "string \<Rightarrow> DynamicParam option"
  ctx_query :: nat
  ctx_isPrefetch :: bool
  ctx_providedFlightRouterState :: "FlightRouterState option"
  ctx_isNotFoundPath :: bool
  ctx_buildId :: string

record FlightOptions =
  actionResult :: string
  skipFlight :: bool
  fo_asNotFound :: "bool option"

subsection \<open>String and object helpers\<close>

text \<open>\<open>String.prototype.toLowerCase\<close> on the ASCII letters, \<open>String.prototype.includes\<close>.\<close>

definition toLowerCase :: "string \<Rightarrow> string" where
  "toLowerCase s =
     map (\<lambda>ch. let n = (of_char ch :: nat) in if 65 \<le> n \<and> n \<le> 90 then char_of (n + 32) else ch) s"

definition str_includes :: "string \<Rightarrow> string \<Rightarrow> bool" where
  "str_includes s sub = list_ex (\<lambda>i. take (length sub) (drop i s) = sub) [0..<Suc (length s)]"

text \<open>
  Modelled from the spec: \<open>addPathPrefix\<close> (shared/lib/router/utils/add-path-prefix) is not
  in \<open>app-render.tsx\<close>. The spec has the \<open>Location\<close> value as the redirect URL prefixed with
  the configured base path; without a base path the URL is unchanged.
\<close>

definition addPathPrefix :: "string \<Rightarrow> string option \<Rightarrow> string" where
  "addPathPrefix path prefix = (case prefix of None \<Rightarrow> path | Some p \<Rightarrow> p @ path)"

text \<open>
  Modelled from the spec: \<open>stripInternalQueries\<close> (server/internal-utils) is not in
  \<open>app-render.tsx\<close>. It strips the internal-only query parameters from the object it is given:
  here, the entries whose key is one of the internal names, a list that the helper holds and
  that is a parameter of the model.
\<close>

definition stripInternalQueries :: "string list \<Rightarrow> Query \<Rightarrow> Query" where
  "stripInternalQueries names q = filter (\<lambda>(k, v). k \<notin> set names) q"

text \<open>Reading the object at an address; spreading \<open>undefined\<close> gives the empty object.\<close>

definition objectAt :: "State \<Rightarrow> nat \<Rightarrow> Query" where
  "objectAt s a = (if a < length (objects s) then objects s ! a else [])"

definition setStatusCode :: "int \<Rightarrow> State \<Rightarrow> State" where
  "setStatusCode c s = s\<lparr> res := (res s)\<lparr> statusCode := c \<rparr> \<rparr>"

definition setHeader :: "string \<Rightarrow> HeaderValue \<Rightarrow> State \<Rightarrow> State" where
  "setHeader name v s = s\<lparr> res := (res s)\<lparr> resHeaders := (resHeaders (res s))(name \<mapsto> v) \<rparr> \<rparr>"

definition emit :: "Event \<Rightarrow> State \<Rightarrow> State" where
  "emit e s = s\<lparr> trace := trace s @ [e] \<rparr>"

definition report :: "Thrown list \<Rightarrow> State \<Rightarrow> State" where
  "report errs s = s\<lparr> capturedErrors := capturedErrors s @ errs \<rparr>"

text \<open>
  \<open>new TransformStream()\<close>: stream instances are numbered in the order of their creation, and
  \<open>streams\<close> counts the instances created so far.
\<close>

definition newTransformStream :: "State \<Rightarrow> nat \<times> State" where
  "newTransformStream s =
     (streams s, emit (NewTransformStream (streams s)) (s\<lparr> streams := Suc (streams s) \<rparr>))"

text \<open>
  Modelled from the spec: \<open>cloneTransformStream\<close> (stream-utils/node-web-streams-helper) is
  not in \<open>app-render.tsx\<close>. The spec has it yield a fresh stream instance over the unread
  remainder of the original.
\<close>

definition cloneTransformStream :: "nat \<Rightarrow> State \<Rightarrow> nat \<times> State" where
  "cloneTransformStream source s =
     (streams s, emit (CloneTransformStream source (streams s)) (s\<lparr> streams := Suc (streams s) \<rparr>))"

subsection \<open>\<open>generateFlight\<close>\<close>

text \<open>
  \<open>path.slice(1)\<close> drops the root segment of every path. The walk and
  \<open>renderToReadableStream\<close> report their errors to the handlers of the context.
\<close>

definition generateFlight ::
  "Scenario \<Rightarrow> Ctx \<Rightarrow> FlightOptions option \<Rightarrow> State \<Rightarrow> (Thrown + RenderResult) \<times> State" where
  "generateFlight sc ctx options s =
     (let skip = (case options of None \<Rightarrow> False | Some opts \<Rightarrow> skipFlight opts);
          asNotFound = (ctx_isNotFoundPath ctx \<or>
                        (case options of None \<Rightarrow> False | Some opts \<Rightarrow> fo_asNotFound opts = Some True));
          s1 = (if skip then s
                else report (flightReported sc)
                       (emit (WalkTreeWithFlightRouterState
                                (ctx_providedFlightRouterState ctx) asNotFound) s));
          walked = (if skip then Inr None
                    else (case walkTreeWithFlightRouterState sc of
                            Inl err \<Rightarrow> Inl err
                          | Inr paths \<Rightarrow> Inr (Some (map (drop 1) paths))))
      in case walked of
           Inl err \<Rightarrow> (Inl err, s1)
         | Inr flightData \<Rightarrow>
             (let payload = FlightPayload (map_option actionResult options) (ctx_buildId ctx) flightData
              in (Inr (FlightRenderResult payload), emit (RenderToReadableStream payload) s1)))"

subsection \<open>The body of \<open>bodyResult\<close>\<close>

text \<open>
  The inner \<open>catch (finalErr)\<close>: in development a not-found error first calls
  \<open>bailOnNotFound\<close>, which may throw its own signal; then the error is thrown again.
\<close>

definition finalCatch :: "Helpers \<Rightarrow> Scenario \<Rightarrow> Thrown \<Rightarrow> State \<Rightarrow> (Thrown + Body) \<times> State" where
  "finalCatch H sc finalErr s =
     (if nodeEnvDevelopment H \<and> isNotFoundError H finalErr then
        (case bailOnNotFound sc of
           Some bail \<Rightarrow> (Inl bail, emit BailOnNotFound s)
         | None \<Rightarrow> (Inl finalErr, emit BailOnNotFound s))
      else (Inl finalErr, s))"

text \<open>
  The first test of the \<open>catch\<close> block, lines 771--776: the code of a static-generation
  bailout, or a message that names the static-HTML-export page (\<open>err.message?.includes\<close>).
\<close>

definition staticGenerationBailout :: "Thrown \<Rightarrow> bool" where
  "staticGenerationBailout err =
     (err_code err = Some ''NEXT_STATIC_GEN_BAILOUT'' \<or>
      (case err_message err of
         None \<Rightarrow> False
       | Some m \<Rightarrow>
           str_includes m ''https://nextjs.org/docs/advanced-features/static-html-export''))"

text \<open>
  The \<open>catch (err)\<close> of the document render, lines 770--945, in three parts. Lines 800--818:
  the redirect branch sets the status code of the error, the \<open>set-cookie\<close> header when
  \<open>appendMutableCookies\<close> returns true, and the \<open>Location\<close> header.
\<close>

definition applyRedirect :: "Helpers \<Rightarrow> Request \<Rightarrow> Thrown \<Rightarrow> State \<Rightarrow> State" where
  "applyRedirect H rq err s =
     (let a = setStatusCode (getRedirectStatusCodeFromError H err) s;
          b = (case err_mutableCookies err of
                 None \<Rightarrow> a
               | Some cookies \<Rightarrow>
                   (case appendMutableCookies H cookies of
                      (True, values) \<Rightarrow> setHeader ''set-cookie'' (HArr values) a
                    | (False, values) \<Rightarrow> a));
          redirectUrl = addPathPrefix (getURLFromRedirectError H err) (basePath (renderOpts rq))
      in setHeader ''Location'' (HStr redirectUrl) b)"

text \<open>
  Lines 790--823: the warning, the status code and the headers; the result carries \<open>is404\<close>
  and \<open>hasRedirectError\<close>.
\<close>

definition classifyError :: "Helpers \<Rightarrow> Request \<Rightarrow> Thrown \<Rightarrow> State \<Rightarrow> (bool \<times> bool) \<times> State" where
  "classifyError H rq err s =
     (let s1 = (if err_digest err = Some (NEXT_DYNAMIC_NO_SSR_CODE H)
                then emit (Warn (pagePath rq)) s else s);
          s2 = (if isNotFoundError H err then setStatusCode 404 s1 else s1);
          hasRedirectError = isRedirectError H err;
          s3 = (if hasRedirectError then applyRedirect H rq err s2 else s2);
          is404 = (statusCode (res s3) = 404);
          s4 = (if \<not> is404 \<and> \<not> hasRedirectError then setStatusCode 500 s3 else s3)
      in ((is404, hasRedirectError), s4))"

text \<open>
  Lines 825--945: the clone of the transform stream, the error page and its render.
  \<open>inlined\<close> is \<open>serverComponentsRenderOpts.inlinedDataTransformStream\<close>.
\<close>

definition renderErrorPage ::
  "Helpers \<Rightarrow> Scenario \<Rightarrow> Request \<Rightarrow> nat \<Rightarrow> LoaderTree \<Rightarrow> string option \<Rightarrow> bool \<Rightarrow> bool \<Rightarrow> State \<Rightarrow>
   (Thrown + Body) \<times> State" where
  "renderErrorPage H sc rq inlined tree formState is404 hasRedirectError s =
     (let (clone, s5) = cloneTransformStream inlined s;
          errorType = (if is404 then Some not_found
                       else if hasRedirectError then Some redirect else None);
          element = ErrorPage tree errorType (statusCode (res s5) \<ge> 400)
                      (nodeEnvDevelopment H) clone;
          s6 = report (errorReported sc) (emit (RenderToInitialFizzStream element) s5)
      in case renderToInitialFizzStream sc of
           Some finalErr \<Rightarrow> finalCatch H sc finalErr s6
         | None \<Rightarrow>
             (let s7 = emit (ContinueStream clone) s6
              in case continueFizzStream sc of
                   Some finalErr \<Rightarrow> finalCatch H sc finalErr s7
                 | None \<Rightarrow>
                     (Inr (ContinueFizzStream (FizzStream element formState)
                             \<lparr> inlinedDataStream = clone,
                               generateStaticHTML = isStaticGeneration (store s7),
                               insertsCapturedErrors = False,
                               serverInsertedHTMLToHead = True,
                               validateRootLayout = dev (renderOpts rq) \<rparr>),
                      s7)))"

definition errorRecovery ::
  "Helpers \<Rightarrow> Scenario \<Rightarrow> Request \<Rightarrow> nat \<Rightarrow> LoaderTree \<Rightarrow> string option \<Rightarrow> Thrown \<Rightarrow> State \<Rightarrow>
   (Thrown + Body) \<times> State" where
  "errorRecovery H sc rq inlined tree formState err s =
     (if staticGenerationBailout err then (Inl err, s)
      else if err_postpone err then
        (Inl err, s\<lparr> store := (store s)\<lparr> revalidate := Some (RSeconds 0) \<rparr> \<rparr>)
      else
        (let ((is404, hasRedirectError), s4) = classifyError H rq err s
         in renderErrorPage H sc rq inlined tree formState is404 hasRedirectError s4))"

text \<open>
  \<open>bodyResult\<close>, lines 655--946. \<open>renderOpts.postponed\<close> is tested for truth: a non-empty
  string, which \<open>JSON.parse\<close> is taken to accept. A render that postpones returns its stream
  as it is. The continuation of a successful render is returned without \<open>await\<close>, outside the
  reach of the \<open>catch\<close>.
\<close>

definition bodyResult ::
  "Helpers \<Rightarrow> Scenario \<Rightarrow> Request \<Rightarrow> nat \<Rightarrow> bool \<Rightarrow> LoaderTree \<Rightarrow> string option \<Rightarrow> State \<Rightarrow>
   (Thrown + Body) \<times> State" where
  "bodyResult H sc rq inlined asNotFound tree formState s =
     (let content = ServerComponentsRenderer tree asNotFound inlined;
          resuming = (case postponed (renderOpts rq) of None \<Rightarrow> False | Some p \<Rightarrow> p \<noteq> []);
          s1 = report (renderReported sc) (emit (Render content) s)
      in case render sc of
           Inr (Some postponedState) \<Rightarrow>
             (Inr (Stream (FizzStream content formState)),
              s1\<lparr> extraRenderResultMeta :=
                     (extraRenderResultMeta s1)\<lparr> md_postponed := Some postponedState \<rparr> \<rparr>)
         | Inr None \<Rightarrow>
             (let options = \<lparr> inlinedDataStream = inlined,
                              generateStaticHTML =
                                (isStaticGeneration (store s1) \<or>
                                 supportsDynamicHTML (renderOpts rq) \<noteq> Some True),
                              insertsCapturedErrors = True,
                              serverInsertedHTMLToHead = (\<not> resuming),
                              validateRootLayout = (\<not> resuming \<and> dev (renderOpts rq)) \<rparr>;
                  s2 = emit (ContinueStream inlined) s1
              in if resuming
                 then (Inr (ContinuePostponedFizzStream (FizzStream content formState) options), s2)
                 else (Inr (ContinueFizzStream (FizzStream content formState) options), s2))
         | Inl err \<Rightarrow> errorRecovery H sc rq inlined tree formState err s1)"

subsection \<open>\<open>renderToHTMLOrFlightImpl\<close>\<close>

text \<open>
  Lines 603--608: \<open>generateFlight(ctx).then(toUnchunkedString).catch(() => null)\<close>. The
  promise is started here and read after the document render; the model runs it here.
\<close>

definition stringifiedFlightPayloadPromise ::
  "Scenario \<Rightarrow> Ctx \<Rightarrow> State \<Rightarrow> FlightPayload option \<times> State" where
  "stringifiedFlightPayloadPromise sc ctx s =
     (case generateFlight sc ctx None s of
        (Inl err, s') \<Rightarrow> (None, s')
      | (Inr (FlightRenderResult payload), s') \<Rightarrow>
          (case flightToUnchunkedString sc of
             Some err \<Rightarrow> (None, s')
           | None \<Rightarrow> (Some payload, s'))
      | (Inr other, s') \<Rightarrow> (None, s'))"

text \<open>
  Lines 984--1033: the render of the requested tree and what follows it. \<open>pageData\<close> is the
  value of the Flight payload promise.
\<close>

definition renderAndFinalize ::
  "Helpers \<Rightarrow> Scenario \<Rightarrow> Request \<Rightarrow> nat \<Rightarrow> bool \<Rightarrow> string option \<Rightarrow> FlightPayload option \<Rightarrow>
   State \<Rightarrow> (Thrown + RenderResult) \<times> State" where
  "renderAndFinalize H sc rq inlined isNotFoundPath formState pageData s =
     (case bodyResult H sc rq inlined isNotFoundPath (loaderTree rq) formState s of
        (Inl err, s') \<Rightarrow> (Inl err, s')
      | (Inr body, s') \<Rightarrow>
          (let metadata = (extraRenderResultMeta s')\<lparr> md_pageData := pageData \<rparr>;
               s1 = s'\<lparr> store := (store s')\<lparr> tags := addImplicitTags H (tags (store s')) \<rparr> \<rparr>;
               fetchTags = map_option (join '','') (tags (store s1));
               s2 = s1\<lparr> extraRenderResultMeta :=
                          (extraRenderResultMeta s1)\<lparr> md_fetchTags := fetchTags \<rparr> \<rparr>;
               renderResult = RenderResult (Streamed body) (metadata\<lparr> md_fetchTags := fetchTags \<rparr>)
           in if isStaticGeneration (store s2) then
                (case capturedErrors s2 of
                   first # others \<Rightarrow> (Inl first, s2)
                 | [] \<Rightarrow>
                     (let s3 = (if forceStatic (store s2) = Some False
                                then s2\<lparr> store := (store s2)\<lparr> revalidate := Some (RSeconds 0) \<rparr> \<rparr>
                                else s2);
                          rev = (case revalidate (store s3) of None \<Rightarrow> RFalse | Some r \<Rightarrow> r);
                          m1 = (extraRenderResultMeta s3)
                                 \<lparr> md_pageData := pageData, md_revalidate := Some rev \<rparr>;
                          m2 = (if rev = RSeconds 0
                                then m1\<lparr> md_staticBailoutInfo :=
                                           Some (dynamicUsageDescription (store s3),
                                                 dynamicUsageStack (store s3)) \<rparr>
                                else m1)
                      in (Inr (RenderResult (Unchunked body) m2),
                          s3\<lparr> extraRenderResultMeta := m2 \<rparr>)))
              else (Inr renderResult, s2)))"

text \<open>
  Lines 387--1034 in three parts. Lines 395--595: the request flags, the copy of the query
  and the context. The caller's query object is at the address \<open>query rq\<close>; \<open>{ ...query }\<close>
  allocates the copy, and \<open>stripInternalQueries\<close> works on the copy. \<open>capturedErrors\<close> and
  \<open>extraRenderResultMeta\<close> are created empty by every call. Tracing, the manifests, the
  script and polyfill lists, the nonce and the fetch metrics take no part in the control flow
  and are left out.
\<close>

definition isFlight :: "Helpers \<Rightarrow> Request \<Rightarrow> bool" where
  "isFlight H rq = (headers rq (toLowerCase (RSC H)) \<noteq> None)"

definition createContext :: "Helpers \<Rightarrow> Request \<Rightarrow> State \<Rightarrow> Ctx \<times> State" where
  "createContext H rq s0 =
     (let isNotFoundPath = (pagePath rq = ''/404'');
          s1 = s0\<lparr> capturedErrors := [], extraRenderResultMeta := emptyMetadata \<rparr>;
          queryCopy = length (objects s1);
          s2 = s1\<lparr> objects := objects s1 @ [objectAt s1 (query rq)] \<rparr>;
          s3 = s2\<lparr> objects := (objects s2)
                       [queryCopy := stripInternalQueries (INTERNAL_QUERY_NAMES H) (objectAt s2 queryCopy)] \<rparr>;
          isPrefetch = (headers rq (toLowerCase (NEXT_ROUTER_PREFETCH H)) \<noteq> None);
          providedFlightRouterState =
            (if isFlight H rq
             then parseAndValidateFlightRouterState H (headers rq (toLowerCase (NEXT_ROUTER_STATE_TREE H)))
             else None);
          params = (case ro_params (renderOpts rq) of None \<Rightarrow> (\<lambda>key. None) | Some ps \<Rightarrow> ps);
          getDynamicParamFromSegment =
            makeGetDynamicParamFromSegment (addressing H) params providedFlightRouterState
      in (\<lparr> ctx_getDynamicParamFromSegment = getDynamicParamFromSegment,
            ctx_query = queryCopy,
            ctx_isPrefetch = isPrefetch,
            ctx_providedFlightRouterState = providedFlightRouterState,
            ctx_isNotFoundPath = isNotFoundPath,
            ctx_buildId = buildId (renderOpts rq) \<rparr>,
          s3))"

text \<open>
  Lines 601--1033: the eager Flight payload, the transform stream, the action handler and the
  render of the document.
\<close>

definition renderDocument ::
  "Helpers \<Rightarrow> Scenario \<Rightarrow> Request \<Rightarrow> Ctx \<Rightarrow> State \<Rightarrow> (Thrown + RenderResult) \<times> State" where
  "renderDocument H sc rq ctx s3 =
     (let hasPostponed = (postponed (renderOpts rq) \<noteq> None);
          (pageData, s4) = (if isStaticGeneration (store s3) \<or> hasPostponed
                            then stringifiedFlightPayloadPromise sc ctx s3
                            else (None, s3));
          (inlined, s5) = newTransformStream s4;
          s6 = emit HandleAction s5
      in case handleAction sc of
           ActionNotFound \<Rightarrow>
             (case bodyResult H sc rq inlined True
                     (createNotFoundLoaderTree (loaderTree rq)) None s6 of
                (Inl err, s') \<Rightarrow> (Inl err, s')
              | (Inr body, s') \<Rightarrow>
                  (Inr (RenderResult (Streamed body) (extraRenderResultMeta s')), s'))
         | ActionDone (Some result) fs \<Rightarrow>
             (Inr (ActionRenderResult result (extraRenderResultMeta s6)), s6)
         | ActionDone None fs \<Rightarrow>
             renderAndFinalize H sc rq inlined (ctx_isNotFoundPath ctx)
               (case fs of Some f \<Rightarrow> (if f = [] then None else Some f) | None \<Rightarrow> None)
               pageData s6
         | NoAction \<Rightarrow>
             renderAndFinalize H sc rq inlined (ctx_isNotFoundPath ctx) None pageData s6)"

definition renderToHTMLOrFlightImpl ::
  "Helpers \<Rightarrow> Scenario \<Rightarrow> Request \<Rightarrow> State \<Rightarrow> (Thrown + RenderResult) \<times> State" where
  "renderToHTMLOrFlightImpl H sc rq s0 =
     (let (ctx, s3) = createContext H rq s0
      in if isFlight H rq \<and> \<not> isStaticGeneration (store s3)
         then generateFlight sc ctx None s3
         else renderDocument H sc rq ctx s3)"

subsection \<open>An instance of the helpers\<close>

text \<open>
  A concrete instance of the imported helpers, on which the model is evaluated: segments
  \<open>[slug]\<close> (dynamic) and \<open>[[...path]]\<close> (optional catch-all), a \<open>canSegmentBeOverridden\<close> that
  accepts the triple whose name is the segment's parameter, not-found and redirect signals told
  by their digest.
\<close>

definition sampleAddressing :: Addressing where
  "sampleAddressing =
     \<lparr> getSegmentParam = (\<lambda>segment.
         if segment = ''[slug]'' then Some \<lparr> sp_param = ''slug'', sp_type = ''dynamic'' \<rparr>
         else if segment = ''[[...path]]''
           then Some \<lparr> sp_param = ''path'', sp_type = ''optional-catchall'' \<rparr>
         else None),
       canSegmentBeOverridden = (\<lambda>segment treeSeg.
         case treeSeg of
           Lit x \<Rightarrow> False
         | Dyn p v t \<Rightarrow> (segment = ''[slug]'' \<and> p = ''slug'') \<or> (segment = ''[[...path]]'' \<and> p = ''path'')),
       dynamicParamTypes = (\<lambda>t. if t = ''optional-catchall'' then ''oc''
                                 else if t = ''catchall'' then ''c'' else ''d''),
       getShortDynamicParamType = (\<lambda>t. if t = ''optional-catchall'' then ''oc''
                                        else if t = ''catchall'' then ''c'' else ''d'') \<rparr>"

definition sampleHelpers :: Helpers where
  "sampleHelpers =
     \<lparr> addressing = sampleAddressing,
       RSC = ''RSC'',
       NEXT_ROUTER_PREFETCH = ''Next-Router-Prefetch'',
       NEXT_ROUTER_STATE_TREE = ''Next-Router-State-Tree'',
       NEXT_DYNAMIC_NO_SSR_CODE = ''NEXT_DYNAMIC_NO_SSR_CODE'',
       INTERNAL_QUERY_NAMES = [''__nextLocale'', ''_rsc''],
       parseAndValidateFlightRouterState = (\<lambda>header. None),
       isNotFoundError = (\<lambda>err. err_digest err = Some ''NEXT_NOT_FOUND''),
       isRedirectError = (\<lambda>err. err_digest err = Some ''NEXT_REDIRECT''),
       getRedirectStatusCodeFromError = (\<lambda>err. 307),
       getURLFromRedirectError = (\<lambda>err. ''/login''),
       appendMutableCookies = (\<lambda>cookies. (cookies \<noteq> [], cookies)),
       addImplicitTags = (\<lambda>ts. ts),
       nodeEnvDevelopment = False \<rparr>"

subsection \<open>The signals of the error taxonomy\<close>

text \<open>
  The kinds of thrown signals are distinct: a not-found signal is one that
  \<open>isNotFoundError\<close> accepts and that is no redirect, no static-generation bailout and no
  postpone; likewise a redirect signal. Error recovery is entered by a thrown value that is
  neither a bailout nor a postpone.
\<close>

definition entersRecovery :: "Thrown \<Rightarrow> bool" where
  "entersRecovery err = (\<not> staticGenerationBailout err \<and> \<not> err_postpone err)"


definition RedirectSignal :: "Helpers \<Rightarrow> Thrown \<Rightarrow> bool" where
  "RedirectSignal H err = (isRedirectError H err \<and> entersRecovery err)"

text \<open>
  The error shell that recovery returns: the error page of the tree with its error type, its
  head tags and the cloned transform stream, continued on the readable end of the clone.
\<close>

definition errorShell ::
  "Helpers \<Rightarrow> Request \<Rightarrow> LoaderTree \<Rightarrow> string option \<Rightarrow> ErrorType option \<Rightarrow> bool \<Rightarrow> bool \<Rightarrow> nat \<Rightarrow> Body" where
  "errorShell H rq tree formState errorType noindex staticGen clone =
     ContinueFizzStream
       (FizzStream (ErrorPage tree errorType noindex (nodeEnvDevelopment H) clone) formState)
       \<lparr> inlinedDataStream = clone, generateStaticHTML = staticGen,
         insertsCapturedErrors = False, serverInsertedHTMLToHead = True,
         validateRootLayout = dev (renderOpts rq) \<rparr>"

text \<open>The recovery render succeeds when neither of its two awaited calls throws.\<close>

definition recoveryRenders :: "Scenario \<Rightarrow> bool" where
  "recoveryRenders sc = (renderToInitialFizzStream sc = None \<and> continueFizzStream sc = None)"


text \<open>
  Reading a trace: the transform stream that a render attempt is wired to, the streams whose
  readable end is handed to a continuation, and the HTML renders.
\<close>

fun elementStream :: "Element \<Rightarrow> nat" where
  "elementStream (ServerComponentsRenderer tree asNotFound k) = k"
| "elementStream (ErrorPage tree errorType noindex d k) = k"

fun attemptStream :: "Event \<Rightarrow> nat option" where
  "attemptStream (Render element) = Some (elementStream element)"
| "attemptStream (RenderToInitialFizzStream element) = Some (elementStream element)"
| "attemptStream e = None"

definition attemptStreams :: "Event list \<Rightarrow> nat list" where
  "attemptStreams tr = List.map_filter attemptStream tr"

fun readStream :: "Event \<Rightarrow> nat option" where
  "readStream (ContinueStream k) = Some k"
| "readStream e = None"

definition readStreams :: "Event list \<Rightarrow> nat list" where
  "readStreams tr = List.map_filter readStream tr"


definition newEvents :: "State \<Rightarrow> State \<Rightarrow> Event list" where
  "newEvents s s' = drop (length (trace s)) (trace s')"

definition str_endsWith :: "string \<Rightarrow> string \<Rightarrow> bool" where
  "str_endsWith s suffix = (length suffix \<le> length s \<and> drop (length s - length suffix) s = suffix)"

text \<open>The page data of a result, and a result with its page data set.\<close>

fun pageDataOf :: "RenderResult \<Rightarrow> FlightPayload option" where
  "pageDataOf (FlightRenderResult payload) = None"
| "pageDataOf (RenderResult response metadata) = md_pageData metadata"
| "pageDataOf (ActionRenderResult result metadata) = md_pageData metadata"

fun withPageData :: "FlightPayload option \<Rightarrow> RenderResult \<Rightarrow> RenderResult" where
  "withPageData pd (FlightRenderResult payload) = FlightRenderResult payload"
| "withPageData pd (RenderResult response metadata) =
     RenderResult response (metadata\<lparr> md_pageData := pd \<rparr>)"
| "withPageData pd (ActionRenderResult result metadata) =
     ActionRenderResult result (metadata\<lparr> md_pageData := pd \<rparr>)"

subsection \<open>Sample requests\<close>

definition sampleTree :: LoaderTree where
  "sampleTree = LoaderTree [] [(''children'', LoaderTree ''[slug]'' [] 1)] 0"

definition sampleRenderOpts :: RenderOpts where
  "sampleRenderOpts =
     \<lparr> dev = False, supportsDynamicHTML = Some True, buildId = ''build'',
       basePath = Some ''/docs'', ro_params = None, postponed = None \<rparr>"

definition sampleRequest :: Request where
  "sampleRequest =
     \<lparr> headers = (\<lambda>name. None), pagePath = ''/blog/[slug]'', query = 0,
       renderOpts = sampleRenderOpts, loaderTree = sampleTree \<rparr>"


definition sampleStore :: StaticGenerationStore where
  "sampleStore =
     \<lparr> isStaticGeneration = False, revalidate = None, forceStatic = None, tags = None,
       dynamicUsageDescription = None, dynamicUsageStack = None \<rparr>"

definition sampleState :: State where
  "sampleState =
     \<lparr> res = \<lparr> statusCode = 200, resHeaders = (\<lambda>name. None) \<rparr>,
       store = sampleStore,
       objects = [[(''__nextLocale'', VStr ''en''), (''page'', VStr ''2'')]],
       streams = 1,
       capturedErrors = [],
       extraRenderResultMeta = emptyMetadata,
       trace = [] \<rparr>"


definition plainError :: Thrown where
  "plainError =
     \<lparr> err_code = None, err_message = Some ''boom'', err_postpone = False,
       err_digest = None, err_mutableCookies = None \<rparr>"


definition redirectError :: Thrown where
  "redirectError =
     plainError\<lparr> err_message := Some ''NEXT_REDIRECT'', err_digest := Some ''NEXT_REDIRECT'',
                 err_mutableCookies := Some [''session=abc''] \<rparr>"

definition bailoutError :: Thrown where
  "bailoutError = plainError\<lparr> err_code := Some ''NEXT_STATIC_GEN_BAILOUT'' \<rparr>"

definition sampleScenario :: Scenario where
  "sampleScenario =
     \<lparr> walkTreeWithFlightRouterState = Inr [[''root'', ''children'', ''page'']],
       flightToUnchunkedString = None,
       flightReported = [],
       handleAction = NoAction,
       render = Inr None,
       renderReported = [],
       renderToInitialFizzStream = None,
       continueFizzStream = None,
       errorReported = [],
       bailOnNotFound = None \<rparr>"



definition emptySlugParams :: "string \<Rightarrow> ParamValue option" where
  "emptySlugParams = Map.empty(''slug'' \<mapsto> VStr [])"

definition slugParams :: "string \<Rightarrow> ParamValue option" where
  "slugParams = Map.empty(''slug'' \<mapsto> VStr ''a b/c'')"




definition redirectScenario :: Scenario where
  "redirectScenario = sampleScenario\<lparr> render := Inl redirectError \<rparr>"

definition genericErrorScenario :: Scenario where
  "genericErrorScenario = sampleScenario\<lparr> render := Inl plainError \<rparr>"

definition bailoutScenario :: Scenario where
  "bailoutScenario = sampleScenario\<lparr> render := Inl bailoutError \<rparr>"




section \<open>Properties of segment addressing\<close>







subsection \<open>Percent-encoding\<close>

lemma hexVal_hexDigit: "n < 16 \<Longrightarrow> hexVal (hexDigit n) = Some n"
  by (auto simp: hexVal_def hexDigit_def Let_def)

lemma percentDecode_encoded_byte:
  "percentDecode (percentEncodeByte ch @ xs) = map_option ((#) ch) (percentDecode xs)"
proof -
  have "(of_char ch :: nat) < 256" by simp
  then have hi: "(of_char ch :: nat) div 16 < 16"
    by (simp add: less_mult_imp_div_less)
  have lo: "(of_char ch :: nat) mod 16 < 16" by simp
  show ?thesis
    by (simp add: percentEncodeByte_def Let_def hexVal_hexDigit [OF hi] hexVal_hexDigit [OF lo])
qed

lemma unreserved_is_not_percent: "uriUnreserved ch \<Longrightarrow> ch \<noteq> CHR ''%''"
  by (auto simp: uriUnreserved_def Let_def)

lemma percentDecode_encodeURIComponent: "percentDecode (encodeURIComponent v) = Some v"
proof (induction v)
  case Nil
  then show ?case by (simp add: encodeURIComponent_def)
next
  case (Cons ch v)
  then have ih: "percentDecode
                   (concat (map (\<lambda>ch. if uriUnreserved ch then [ch] else percentEncodeByte ch) v)) =
                 Some v"
    by (simp add: encodeURIComponent_def)
  show ?case
  proof (cases "uriUnreserved ch")
    case True
    then show ?thesis
      using ih unreserved_is_not_percent [OF True] by (simp add: encodeURIComponent_def)
  next
    case False
    then show ?thesis
      using ih
      by (simp add: encodeURIComponent_def percentDecode_encoded_byte del: percentDecode.simps)
  qed
qed

lemma encodeURIComponent_empty: "encodeURIComponent v = [] \<longleftrightarrow> v = []"
  by (cases v) (auto simp: encodeURIComponent_def percentEncodeByte_def Let_def)

text \<open>
  C7, as stated, fails: the empty string is a scalar string value that is present in the
  parameter mapping, and for it the resolver takes the fallback path and, with no router
  state, returns \<open>null\<close>: \<open>!value\<close> is true of the empty string.
\<close>

theorem present_empty_value_counterexample:
  "getSegmentParam sampleAddressing ''[slug]'' = Some \<lparr> sp_param = ''slug'', sp_type = ''dynamic'' \<rparr>
   \<and> emptySlugParams ''slug'' = Some (VStr [])
   \<and> makeGetDynamicParamFromSegment sampleAddressing emptySlugParams None ''[slug]'' = None"
  by (simp add: sampleAddressing_def emptySlugParams_def makeGetDynamicParamFromSegment_def
        findDynamicParamFromRouterState_def encodeURIComponent_def)

text \<open>
  C7, amended. For a dynamic segment whose parameter value is a scalar string \<open>v\<close> that is not
  empty and not the sentinel \<open>__NEXT_EMPTY_PARAM__\<close>, the resolver returns a DynamicParam
  whose value and whose tree-segment descriptor carry the percent-encoded \<open>v\<close>, and
  percent-decoding the encoded value yields \<open>v\<close> again.
\<close>

theorem scalar_value_round_trip:
  assumes dynamic: "getSegmentParam A segment = Some sp"
    and present: "params (sp_param sp) = Some (VStr v)"
    and nonempty: "v \<noteq> []"
    and no_sentinel: "v \<noteq> ''__NEXT_EMPTY_PARAM__''"
  shows "makeGetDynamicParamFromSegment A params provided segment =
           Some \<lparr> param = sp_param sp,
                  value = Some (VStr (encodeURIComponent v)),
                  treeSegment = Dyn (sp_param sp) (encodeURIComponent v)
                                  (getShortDynamicParamType A (sp_type sp)),
                  type = getShortDynamicParamType A (sp_type sp) \<rparr>
         \<and> percentDecode (encodeURIComponent v) = Some v"
  using assms
  by (simp add: makeGetDynamicParamFromSegment_def Let_def encodeURIComponent_empty
        percentDecode_encodeURIComponent)

theorem scalar_value_round_trip_witness:
  "makeGetDynamicParamFromSegment sampleAddressing slugParams None ''[slug]'' =
     Some \<lparr> param = ''slug'', value = Some (VStr ''a%20b%2Fc''),
            treeSegment = Dyn ''slug'' ''a%20b%2Fc'' ''d'', type = ''d'' \<rparr>
   \<and> percentDecode ''a%20b%2Fc'' = Some ''a b/c''"
proof -
  have dynamic: "getSegmentParam sampleAddressing ''[slug]'' =
                   Some \<lparr> sp_param = ''slug'', sp_type = ''dynamic'' \<rparr>"
    by (simp add: sampleAddressing_def)
  have present: "slugParams (sp_param \<lparr> sp_param = ''slug'', sp_type = ''dynamic'' \<rparr>) =
                   Some (VStr ''a b/c'')"
    by (simp add: slugParams_def)
  have nonempty: "''a b/c'' \<noteq> []" by simp
  have no_sentinel: "''a b/c'' \<noteq> ''__NEXT_EMPTY_PARAM__''" by simp
  have enc: "encodeURIComponent ''a b/c'' = ''a%20b%2Fc''" by code_simp
  show ?thesis
    using scalar_value_round_trip
            [where params = slugParams and provided = None,
             OF dynamic present nonempty no_sentinel]
    by (simp add: enc sampleAddressing_def)
qed

section \<open>Properties of the error recovery of \<open>bodyResult\<close>\<close>

subsection \<open>What each step does to the state\<close>

lemma emit_fields [simp]:
  "res (emit e s) = res s" "store (emit e s) = store s" "objects (emit e s) = objects s"
  "streams (emit e s) = streams s" "capturedErrors (emit e s) = capturedErrors s"
  "extraRenderResultMeta (emit e s) = extraRenderResultMeta s"
  "trace (emit e s) = trace s @ [e]"
  by (simp_all add: emit_def)

lemma report_fields [simp]:
  "res (report es s) = res s" "store (report es s) = store s" "objects (report es s) = objects s"
  "streams (report es s) = streams s" "capturedErrors (report es s) = capturedErrors s @ es"
  "extraRenderResultMeta (report es s) = extraRenderResultMeta s"
  "trace (report es s) = trace s"
  by (simp_all add: report_def)

lemma setStatusCode_fields [simp]:
  "res (setStatusCode c s) = (res s)\<lparr> statusCode := c \<rparr>"
  "store (setStatusCode c s) = store s" "objects (setStatusCode c s) = objects s"
  "streams (setStatusCode c s) = streams s"
  "capturedErrors (setStatusCode c s) = capturedErrors s"
  "extraRenderResultMeta (setStatusCode c s) = extraRenderResultMeta s"
  "trace (setStatusCode c s) = trace s"
  by (simp_all add: setStatusCode_def)

lemma setHeader_fields [simp]:
  "res (setHeader n v s) = (res s)\<lparr> resHeaders := (resHeaders (res s))(n \<mapsto> v) \<rparr>"
  "store (setHeader n v s) = store s" "objects (setHeader n v s) = objects s"
  "streams (setHeader n v s) = streams s"
  "capturedErrors (setHeader n v s) = capturedErrors s"
  "extraRenderResultMeta (setHeader n v s) = extraRenderResultMeta s"
  "trace (setHeader n v s) = trace s"
  by (simp_all add: setHeader_def)

lemma cloneTransformStream_fields [simp]:
  "fst (cloneTransformStream k s) = streams s"
  "res (snd (cloneTransformStream k s)) = res s"
  "store (snd (cloneTransformStream k s)) = store s"
  "objects (snd (cloneTransformStream k s)) = objects s"
  "streams (snd (cloneTransformStream k s)) = Suc (streams s)"
  "capturedErrors (snd (cloneTransformStream k s)) = capturedErrors s"
  "extraRenderResultMeta (snd (cloneTransformStream k s)) = extraRenderResultMeta s"
  "trace (snd (cloneTransformStream k s)) = trace s @ [CloneTransformStream k (streams s)]"
  by (simp_all add: cloneTransformStream_def)

lemma newTransformStream_fields [simp]:
  "fst (newTransformStream s) = streams s"
  "res (snd (newTransformStream s)) = res s"
  "store (snd (newTransformStream s)) = store s"
  "objects (snd (newTransformStream s)) = objects s"
  "streams (snd (newTransformStream s)) = Suc (streams s)"
  "capturedErrors (snd (newTransformStream s)) = capturedErrors s"
  "extraRenderResultMeta (snd (newTransformStream s)) = extraRenderResultMeta s"
  "trace (snd (newTransformStream s)) = trace s @ [NewTransformStream (streams s)]"
  by (simp_all add: newTransformStream_def)

lemma applyRedirect_fields [simp]:
  "statusCode (res (applyRedirect H rq err s)) = getRedirectStatusCodeFromError H err"
  "resHeaders (res (applyRedirect H rq err s)) ''Location'' =
     Some (HStr (addPathPrefix (getURLFromRedirectError H err) (basePath (renderOpts rq))))"
  "store (applyRedirect H rq err s) = store s" "objects (applyRedirect H rq err s) = objects s"
  "streams (applyRedirect H rq err s) = streams s"
  "capturedErrors (applyRedirect H rq err s) = capturedErrors s"
  "extraRenderResultMeta (applyRedirect H rq err s) = extraRenderResultMeta s"
  "trace (applyRedirect H rq err s) = trace s"
  by (simp_all add: applyRedirect_def Let_def split: option.splits prod.splits bool.splits)

lemma applyRedirect_set_cookie:
  "resHeaders (res (applyRedirect H rq err s)) ''set-cookie'' =
     (case err_mutableCookies err of
        None \<Rightarrow> resHeaders (res s) ''set-cookie''
      | Some cookies \<Rightarrow>
          (case appendMutableCookies H cookies of
             (True, values) \<Rightarrow> Some (HArr values)
           | (False, values) \<Rightarrow> resHeaders (res s) ''set-cookie''))"
  by (simp add: applyRedirect_def Let_def split: option.splits prod.splits bool.splits)


lemma classifyError_fields [simp]:
  "store (snd (classifyError H rq err s)) = store s"
  "objects (snd (classifyError H rq err s)) = objects s"
  "streams (snd (classifyError H rq err s)) = streams s"
  "capturedErrors (snd (classifyError H rq err s)) = capturedErrors s"
  "extraRenderResultMeta (snd (classifyError H rq err s)) = extraRenderResultMeta s"
  by (simp_all add: classifyError_def Let_def)

lemma classifyError_trace:
  "trace (snd (classifyError H rq err s)) =
     trace s @ (if err_digest err = Some (NEXT_DYNAMIC_NO_SSR_CODE H)
                then [Warn (pagePath rq)] else [])"
  by (simp add: classifyError_def Let_def)


lemma classifyError_redirect:
  "isRedirectError H err \<Longrightarrow>
   fst (classifyError H rq err s) = (getRedirectStatusCodeFromError H err = 404, True)
   \<and> statusCode (res (snd (classifyError H rq err s))) = getRedirectStatusCodeFromError H err
   \<and> resHeaders (res (snd (classifyError H rq err s))) ''Location'' =
       Some (HStr (addPathPrefix (getURLFromRedirectError H err) (basePath (renderOpts rq))))
   \<and> resHeaders (res (snd (classifyError H rq err s))) ''set-cookie'' =
       (case err_mutableCookies err of
          None \<Rightarrow> resHeaders (res s) ''set-cookie''
        | Some cookies \<Rightarrow>
            (case appendMutableCookies H cookies of
               (True, values) \<Rightarrow> Some (HArr values)
             | (False, values) \<Rightarrow> resHeaders (res s) ''set-cookie''))"
  by (simp add: classifyError_def Let_def applyRedirect_set_cookie
        split: option.splits prod.splits bool.splits)

lemma finalCatch_fields [simp]:
  "res (snd (finalCatch H sc e s)) = res s" "store (snd (finalCatch H sc e s)) = store s"
  "objects (snd (finalCatch H sc e s)) = objects s"
  "streams (snd (finalCatch H sc e s)) = streams s"
  "capturedErrors (snd (finalCatch H sc e s)) = capturedErrors s"
  "extraRenderResultMeta (snd (finalCatch H sc e s)) = extraRenderResultMeta s"
  "isl (fst (finalCatch H sc e s))"
  "fst (finalCatch H sc e s) \<noteq> Inr b"
  by (simp_all add: finalCatch_def split: option.splits)

lemma finalCatch_trace:
  "trace (snd (finalCatch H sc e s)) =
     trace s @ (if nodeEnvDevelopment H \<and> isNotFoundError H e then [BailOnNotFound] else [])"
  by (simp add: finalCatch_def split: option.splits)


lemma renderErrorPage_fields [simp]:
  "res (snd (renderErrorPage H sc rq inlined tree fs a b s)) = res s"
  "store (snd (renderErrorPage H sc rq inlined tree fs a b s)) = store s"
  "objects (snd (renderErrorPage H sc rq inlined tree fs a b s)) = objects s"
  "streams (snd (renderErrorPage H sc rq inlined tree fs a b s)) = Suc (streams s)"
  "capturedErrors (snd (renderErrorPage H sc rq inlined tree fs a b s)) =
     capturedErrors s @ errorReported sc"
  "extraRenderResultMeta (snd (renderErrorPage H sc rq inlined tree fs a b s)) =
     extraRenderResultMeta s"
  by (simp_all add: renderErrorPage_def Let_def split_beta split: option.splits)

lemma renderErrorPage_result:
  "fst (renderErrorPage H sc rq inlined tree fs is404 redir s) =
     (if recoveryRenders sc then
        Inr (errorShell H rq tree fs
               (if is404 then Some not_found else if redir then Some redirect else None)
               (statusCode (res s) \<ge> 400) (isStaticGeneration (store s)) (streams s))
      else fst (finalCatch H sc
                  (the (if renderToInitialFizzStream sc = None then continueFizzStream sc
                        else renderToInitialFizzStream sc)) s))"
  by (auto simp add: renderErrorPage_def Let_def split_beta recoveryRenders_def errorShell_def
        finalCatch_def split: option.splits)

lemma renderErrorPage_trace:
  "\<exists>tail. trace (snd (renderErrorPage H sc rq inlined tree fs a b s)) =
      trace s @ [CloneTransformStream inlined (streams s),
                 RenderToInitialFizzStream
                   (ErrorPage tree (if a then Some not_found else if b then Some redirect else None)
                      (statusCode (res s) \<ge> 400) (nodeEnvDevelopment H) (streams s))] @ tail
      \<and> set tail \<subseteq> {ContinueStream (streams s), BailOnNotFound}"
  by (auto simp add: renderErrorPage_def Let_def split_beta finalCatch_trace split: option.splits)

text \<open>
  A thrown value that enters recovery is classified, and the error page is rendered in the
  state that the classification leaves.
\<close>

lemma bodyResult_recovery:
  assumes "render sc = Inl err" and "entersRecovery err"
  shows "bodyResult H sc rq inlined asNotFound tree formState s =
           renderErrorPage H sc rq inlined tree formState
             (fst (fst (classifyError H rq err
                (report (renderReported sc)
                   (emit (Render (ServerComponentsRenderer tree asNotFound inlined)) s)))))
             (snd (fst (classifyError H rq err
                (report (renderReported sc)
                   (emit (Render (ServerComponentsRenderer tree asNotFound inlined)) s)))))
             (snd (classifyError H rq err
                (report (renderReported sc)
                   (emit (Render (ServerComponentsRenderer tree asNotFound inlined)) s))))"
  using assms
  by (simp add: bodyResult_def errorRecovery_def Let_def entersRecovery_def split_beta)

lemma addPathPrefix_endsWith: "str_endsWith (addPathPrefix path prefix) path"
  by (cases prefix) (simp_all add: addPathPrefix_def str_endsWith_def)

lemma map_filter_append:
  "List.map_filter f (xs @ ys) = List.map_filter f xs @ List.map_filter f ys"
  by (simp add: List.map_filter_def)

subsection \<open>The claims on error recovery\<close>




text \<open>
  C2. If the document render fails with a redirect signal of status 307 and target
  \<open>/login\<close>, the response status code is 307; the \<open>Location\<close> header is the target prefixed
  with the configured base path, which ends in \<open>/login\<close>; the mutable cookies of the error are
  in the \<open>set-cookie\<close> header when \<open>appendMutableCookies\<close> says that it has appended any (the
  header is untouched otherwise); and the body that is returned is the error shell of error
  type \<open>redirect\<close>, without the robots tag. When the render of the error page fails, no body is
  returned: an error is thrown.
\<close>

theorem redirect_recovery:
  assumes thrown: "render sc = Inl err"
    and signal: "RedirectSignal H err"
    and status: "getRedirectStatusCodeFromError H err = 307"
    and target: "getURLFromRedirectError H err = ''/login''"
  shows "let (result, s') = bodyResult H sc rq inlined asNotFound tree formState s;
             location = addPathPrefix ''/login'' (basePath (renderOpts rq))
         in statusCode (res s') = 307
            \<and> resHeaders (res s') ''Location'' = Some (HStr location)
            \<and> str_endsWith location ''/login''
            \<and> resHeaders (res s') ''set-cookie'' =
                (case err_mutableCookies err of
                   None \<Rightarrow> resHeaders (res s) ''set-cookie''
                 | Some cookies \<Rightarrow>
                     (case appendMutableCookies H cookies of
                        (True, values) \<Rightarrow> Some (HArr values)
                      | (False, values) \<Rightarrow> resHeaders (res s) ''set-cookie''))
            \<and> (if recoveryRenders sc
                then result = Inr (errorShell H rq tree formState (Some redirect) False
                                     (isStaticGeneration (store s)) (streams s))
                else isl result)"
proof -
  have r: "isRedirectError H err" and e: "entersRecovery err"
    using signal by (simp_all add: RedirectSignal_def)
  note c = classifyError_redirect [OF r, of rq]
  show ?thesis
    using status target
    by (simp add: split_beta Let_def bodyResult_recovery [OF thrown e] c renderErrorPage_result
          addPathPrefix_endsWith split: option.splits prod.splits bool.splits)
qed

theorem redirect_recovery_witness:
  "statusCode (res (snd (bodyResult sampleHelpers redirectScenario sampleRequest 0 False
                            sampleTree None sampleState))) = 307
   \<and> resHeaders (res (snd (bodyResult sampleHelpers redirectScenario sampleRequest 0 False
                              sampleTree None sampleState))) ''Location'' =
       Some (HStr ''/docs/login'')
   \<and> resHeaders (res (snd (bodyResult sampleHelpers redirectScenario sampleRequest 0 False
                              sampleTree None sampleState))) ''set-cookie'' =
       Some (HArr [''session=abc''])
   \<and> fst (bodyResult sampleHelpers redirectScenario sampleRequest 0 False sampleTree None
            sampleState) =
       Inr (errorShell sampleHelpers sampleRequest sampleTree None (Some redirect) False False 1)"
proof -
  have thrown: "render redirectScenario = Inl redirectError"
    by (simp add: redirectScenario_def)
  have signal: "RedirectSignal sampleHelpers redirectError"
    by code_simp
  have status: "getRedirectStatusCodeFromError sampleHelpers redirectError = 307"
    by (simp add: sampleHelpers_def)
  have target: "getURLFromRedirectError sampleHelpers redirectError = ''/login''"
    by (simp add: sampleHelpers_def)
  have renders: "recoveryRenders redirectScenario"
    by (simp add: recoveryRenders_def redirectScenario_def sampleScenario_def)
  have cookies: "err_mutableCookies redirectError = Some [''session=abc'']"
    by (simp add: redirectError_def)
  have append: "appendMutableCookies sampleHelpers [''session=abc''] = (True, [''session=abc''])"
    by (simp add: sampleHelpers_def)
  have base: "addPathPrefix ''/login'' (basePath (renderOpts sampleRequest)) = ''/docs/login''"
    by (simp add: addPathPrefix_def sampleRequest_def sampleRenderOpts_def)
  show ?thesis
    using redirect_recovery [OF thrown signal status target,
            of sampleRequest 0 False sampleTree None sampleState]
      renders
    by (simp add: split_beta Let_def cookies append base sampleState_def sampleStore_def)
qed

text \<open>
  C3. A static-generation bailout thrown by the document render is thrown again at once:
  \<open>bodyResult\<close> ends with that same error, the response (status code and headers), the
  store and the transform streams are as they were, and the only call made is the failed
  document render itself: nothing is cloned and no error page is rendered.
\<close>

theorem bailout_rethrown:
  assumes thrown: "render sc = Inl err"
    and bailout: "staticGenerationBailout err"
  shows "let (result, s') = bodyResult H sc rq inlined asNotFound tree formState s
         in result = Inl err
            \<and> res s' = res s \<and> store s' = store s \<and> streams s' = streams s
            \<and> newEvents s s' = [Render (ServerComponentsRenderer tree asNotFound inlined)]"
  using assms
  by (simp add: bodyResult_def errorRecovery_def Let_def newEvents_def)

theorem bailout_rethrown_witness:
  "fst (bodyResult sampleHelpers bailoutScenario sampleRequest 0 False sampleTree None
          sampleState) = Inl bailoutError
   \<and> statusCode (res (snd (bodyResult sampleHelpers bailoutScenario sampleRequest 0 False
                              sampleTree None sampleState))) = 200
   \<and> newEvents sampleState
       (snd (bodyResult sampleHelpers bailoutScenario sampleRequest 0 False sampleTree None
               sampleState)) =
       [Render (ServerComponentsRenderer sampleTree False 0)]"
proof -
  have thrown: "render bailoutScenario = Inl bailoutError"
    by (simp add: bailoutScenario_def)
  have bailout: "staticGenerationBailout bailoutError"
    by (simp add: staticGenerationBailout_def bailoutError_def)
  show ?thesis
    using bailout_rethrown [OF thrown bailout, of sampleHelpers sampleRequest 0 False sampleTree
            None sampleState]
    by (simp add: split_beta sampleState_def)
qed

text \<open>
  C5. On every entry into error recovery, with the original transform stream in existence,
  the stream is cloned before the error page is rendered; the clone is a stream other than
  the original; the two render attempts are wired to two streams, the document render to
  the original and the render of the error page to the clone; the only stream whose readable
  end is handed to a continuation is the clone; and a body that is returned reads the clone.
\<close>

theorem recovery_reads_clone:
  assumes thrown: "render sc = Inl err"
    and enters: "entersRecovery err"
    and exists: "inlined < streams s"
  shows "let (result, s') = bodyResult H sc rq inlined asNotFound tree formState s;
             clone = streams s
         in clone \<noteq> inlined
            \<and> attemptStreams (newEvents s s') = [inlined, clone]
            \<and> CloneTransformStream inlined clone
                 \<in> set (takeWhile (\<lambda>e. attemptStream e \<noteq> Some clone) (newEvents s s'))
            \<and> set (readStreams (newEvents s s')) \<subseteq> {clone}
            \<and> (\<forall>stream options. result = Inr (ContinueFizzStream stream options) \<longrightarrow>
                  inlinedDataStream options = clone)"
proof -
  let ?s1 = "report (renderReported sc)
               (emit (Render (ServerComponentsRenderer tree asNotFound inlined)) s)"
  let ?c = "classifyError H rq err ?s1"
  let ?r = "renderErrorPage H sc rq inlined tree formState (fst (fst ?c)) (snd (fst ?c)) (snd ?c)"
  let ?page = "RenderToInitialFizzStream
                 (ErrorPage tree
                    (if fst (fst ?c) then Some not_found
                     else if snd (fst ?c) then Some redirect else None)
                    (statusCode (res (snd ?c)) \<ge> 400) (nodeEnvDevelopment H) (streams s))"
  have b: "bodyResult H sc rq inlined asNotFound tree formState s = ?r"
    by (rule bodyResult_recovery [OF thrown enters])
  obtain tail where t: "trace (snd ?r) =
        trace (snd ?c) @ [CloneTransformStream inlined (streams s), ?page] @ tail"
      and tl: "set tail \<subseteq> {ContinueStream (streams s), BailOnNotFound}"
    using renderErrorPage_trace
            [of H sc rq inlined tree formState "fst (fst ?c)" "snd (fst ?c)" "snd ?c"]
    by auto
  have new: "newEvents s (snd ?r) =
      [Render (ServerComponentsRenderer tree asNotFound inlined)]
      @ (if err_digest err = Some (NEXT_DYNAMIC_NO_SSR_CODE H) then [Warn (pagePath rq)] else [])
      @ [CloneTransformStream inlined (streams s), ?page] @ tail"
    by (simp add: newEvents_def t classifyError_trace)
  have ne: "streams s \<noteq> inlined" using exists by simp
  have tail_attempts: "List.map_filter attemptStream tail = []"
    using tl by (induction tail) (auto simp: List.map_filter_simps)
  have tail_reads: "set (List.map_filter readStream tail) \<subseteq> {streams s}"
    using tl by (induction tail) (auto simp: List.map_filter_simps)
  have body: "\<forall>stream options. fst ?r = Inr (ContinueFizzStream stream options) \<longrightarrow>
                inlinedDataStream options = streams s"
    by (auto simp add: renderErrorPage_result errorShell_def split: if_splits)
  show ?thesis
    using ne tail_attempts tail_reads body
    by (simp add: b split_beta Let_def new attemptStreams_def readStreams_def
          List.map_filter_simps map_filter_append)
qed

theorem recovery_reads_clone_witness:
  "attemptStreams
     (newEvents sampleState
        (snd (bodyResult sampleHelpers genericErrorScenario sampleRequest 0 False sampleTree None
                sampleState))) = [0, 1]
   \<and> readStreams
       (newEvents sampleState
          (snd (bodyResult sampleHelpers genericErrorScenario sampleRequest 0 False sampleTree
                  None sampleState))) = [1]"
proof -
  have thrown: "render genericErrorScenario = Inl plainError"
    by (simp add: genericErrorScenario_def)
  have enters: "entersRecovery plainError"
    by code_simp
  have exists: "0 < streams sampleState"
    by (simp add: sampleState_def)
  have reads: "readStreams
       (newEvents sampleState
          (snd (bodyResult sampleHelpers genericErrorScenario sampleRequest 0 False sampleTree
                  None sampleState))) = [1]"
    by code_simp
  show ?thesis
    using recovery_reads_clone [OF thrown enters exists, of sampleHelpers sampleRequest False
            sampleTree None]
      reads
    by (simp add: split_beta Let_def sampleState_def)
qed

section \<open>Properties of \<open>renderToHTMLOrFlightImpl\<close>\<close>

subsection \<open>The parts of the orchestrator\<close>

lemma generateFlight_fields [simp]:
  "res (snd (generateFlight sc ctx None s)) = res s"
  "store (snd (generateFlight sc ctx None s)) = store s"
  "objects (snd (generateFlight sc ctx None s)) = objects s"
  "streams (snd (generateFlight sc ctx None s)) = streams s"
  "capturedErrors (snd (generateFlight sc ctx None s)) = capturedErrors s @ flightReported sc"
  "extraRenderResultMeta (snd (generateFlight sc ctx None s)) = extraRenderResultMeta s"
  by (simp_all add: generateFlight_def Let_def split: sum.splits)



lemma stringifiedFlightPayloadPromise_fields [simp]:
  "res (snd (stringifiedFlightPayloadPromise sc ctx s)) = res s"
  "store (snd (stringifiedFlightPayloadPromise sc ctx s)) = store s"
  "objects (snd (stringifiedFlightPayloadPromise sc ctx s)) = objects s"
  "streams (snd (stringifiedFlightPayloadPromise sc ctx s)) = streams s"
  "capturedErrors (snd (stringifiedFlightPayloadPromise sc ctx s)) =
     capturedErrors s @ flightReported sc"
  "extraRenderResultMeta (snd (stringifiedFlightPayloadPromise sc ctx s)) =
     extraRenderResultMeta s"
  by (simp_all add: stringifiedFlightPayloadPromise_def split_beta
        split: sum.splits RenderResult.splits option.splits)


lemma createContext_fields [simp]:
  "res (snd (createContext H rq s0)) = res s0"
  "store (snd (createContext H rq s0)) = store s0"
  "objects (snd (createContext H rq s0)) =
     objects s0 @ [stripInternalQueries (INTERNAL_QUERY_NAMES H) (objectAt s0 (query rq))]"
  "streams (snd (createContext H rq s0)) = streams s0"
  "capturedErrors (snd (createContext H rq s0)) = []"
  "extraRenderResultMeta (snd (createContext H rq s0)) = emptyMetadata"
  "trace (snd (createContext H rq s0)) = trace s0"
  "ctx_buildId (fst (createContext H rq s0)) = buildId (renderOpts rq)"
  by (simp_all add: createContext_def Let_def objectAt_def)

lemma bodyResult_objects [simp]:
  "objects (snd (bodyResult H sc rq i nf tree fs s)) = objects s"
  by (simp add: bodyResult_def errorRecovery_def Let_def split_beta split: sum.splits option.splits)




lemma renderAndFinalize_objects [simp]:
  "objects (snd (renderAndFinalize H sc rq i nf fs pd s)) = objects s"
proof (cases "bodyResult H sc rq i nf (loaderTree rq) fs s")
  case (Pair r s')
  then have "objects s' = objects s"
    using bodyResult_objects [of H sc rq i nf "loaderTree rq" fs s] by simp
  with Pair show ?thesis
    by (simp add: renderAndFinalize_def Let_def split: sum.splits list.splits)
qed

lemma renderDocument_objects [simp]:
  "objects (snd (renderDocument H sc rq ctx s)) = objects s"
proof -
  have b: "\<And>i nf tree fs t r s'.
             bodyResult H sc rq i nf tree fs t = (r, s') \<Longrightarrow> objects s' = objects t"
    using bodyResult_objects by (metis snd_conv)
  show ?thesis
    by (auto simp add: renderDocument_def Let_def split_beta
          split: ActionRequestResult.splits option.splits sum.splits prod.splits dest: b)
qed

subsection \<open>The static-generation check\<close>






subsection \<open>The Flight-only path\<close>



subsection \<open>The eager Flight payload\<close>






text \<open>The document render reads neither outcome of the Flight generation.\<close>

lemma finalCatch_scenario [simp]:
  "finalCatch H (sc\<lparr> walkTreeWithFlightRouterState := w, flightToUnchunkedString := u \<rparr>) =
     finalCatch H sc"
  by (intro ext) (simp add: finalCatch_def cong: option.case_cong)

lemma renderErrorPage_scenario [simp]:
  "renderErrorPage H (sc\<lparr> walkTreeWithFlightRouterState := w, flightToUnchunkedString := u \<rparr>) =
     renderErrorPage H sc"
  by (intro ext) (simp add: renderErrorPage_def Let_def split_beta cong: option.case_cong)

lemma errorRecovery_scenario [simp]:
  "errorRecovery H (sc\<lparr> walkTreeWithFlightRouterState := w, flightToUnchunkedString := u \<rparr>) =
     errorRecovery H sc"
  by (intro ext) (simp add: errorRecovery_def Let_def split_beta)

lemma bodyResult_scenario [simp]:
  "bodyResult H (sc\<lparr> walkTreeWithFlightRouterState := w, flightToUnchunkedString := u \<rparr>) =
     bodyResult H sc"
  by (intro ext) (simp add: bodyResult_def Let_def cong: sum.case_cong option.case_cong)

lemma renderAndFinalize_scenario [simp]:
  "renderAndFinalize H (sc\<lparr> walkTreeWithFlightRouterState := w, flightToUnchunkedString := u \<rparr>) =
     renderAndFinalize H sc"
  by (intro ext) (simp add: renderAndFinalize_def)



lemma pageDataOf_withPageData [simp]: "pageDataOf (withPageData None r) = None"
  by (cases r) simp_all



subsection \<open>The caller's query\<close>

text \<open>
  C10. \<open>renderToHTMLOrFlightImpl\<close> does not change the caller's query object: every object
  that is in the store before the call is in it, unchanged, after the call; the one object
  added is the copy, stripped of the internal parameters; and the object at the caller's
  address reads as before.
\<close>

theorem caller_query_unchanged:
  "objects (snd (renderToHTMLOrFlightImpl H sc rq s0)) =
     objects s0 @ [stripInternalQueries (INTERNAL_QUERY_NAMES H) (objectAt s0 (query rq))]
   \<and> take (length (objects s0)) (objects (snd (renderToHTMLOrFlightImpl H sc rq s0))) = objects s0
   \<and> objectAt (snd (renderToHTMLOrFlightImpl H sc rq s0)) (query rq) = objectAt s0 (query rq)"
proof -
  have o: "objects (snd (renderToHTMLOrFlightImpl H sc rq s0)) =
             objects s0 @ [stripInternalQueries (INTERNAL_QUERY_NAMES H) (objectAt s0 (query rq))]"
    by (simp add: renderToHTMLOrFlightImpl_def split_beta)
  show ?thesis
    by (simp add: o) (simp add: objectAt_def o nth_append stripInternalQueries_def)
qed

theorem caller_query_unchanged_witness:
  "objectAt (snd (renderToHTMLOrFlightImpl sampleHelpers sampleScenario sampleRequest sampleState)) 0 =
     [(''__nextLocale'', VStr ''en''), (''page'', VStr ''2'')]
   \<and> objects (snd (renderToHTMLOrFlightImpl sampleHelpers sampleScenario sampleRequest sampleState)) =
       [[(''__nextLocale'', VStr ''en''), (''page'', VStr ''2'')], [(''page'', VStr ''2'')]]"
proof -
  have q: "query sampleRequest = 0"
    by (simp add: sampleRequest_def)
  show ?thesis
    using caller_query_unchanged [of sampleHelpers sampleScenario sampleRequest sampleState]
    by (simp add: q objectAt_def sampleState_def sampleHelpers_def stripInternalQueries_def)
qed

end
